theory Spec2Isabelle
  imports Complex_Main "HOL-Library.Sublist" "HOL-Library.Word"
begin

unbundle bit_operations_syntax

section \<open>hashlib: MD5 and SHA-1\<close>

text \<open>
  The two digests of the standard library that the code calls, written out after
  RFC 1321 and RFC 3174. A string stands for its encoded bytes, and a byte is an
  \<open>int\<close> between 0 and 255.
\<close>

text \<open>MD5: per step the round, the constant, the rotation and the message word.\<close>

definition md5_table :: "(nat \<times> 32 word \<times> nat \<times> nat) list" where
  "md5_table = [
     (0, 0xd76aa478, 7, 0), (0, 0xe8c7b756, 12, 1), (0, 0x242070db, 17, 2), (0, 0xc1bdceee, 22, 3),
     (0, 0xf57c0faf, 7, 4), (0, 0x4787c62a, 12, 5), (0, 0xa8304613, 17, 6), (0, 0xfd469501, 22, 7),
     (0, 0x698098d8, 7, 8), (0, 0x8b44f7af, 12, 9), (0, 0xffff5bb1, 17, 10), (0, 0x895cd7be, 22, 11),
     (0, 0x6b901122, 7, 12), (0, 0xfd987193, 12, 13), (0, 0xa679438e, 17, 14), (0, 0x49b40821, 22, 15),
     (1, 0xf61e2562, 5, 1), (1, 0xc040b340, 9, 6), (1, 0x265e5a51, 14, 11), (1, 0xe9b6c7aa, 20, 0),
     (1, 0xd62f105d, 5, 5), (1, 0x02441453, 9, 10), (1, 0xd8a1e681, 14, 15), (1, 0xe7d3fbc8, 20, 4),
     (1, 0x21e1cde6, 5, 9), (1, 0xc33707d6, 9, 14), (1, 0xf4d50d87, 14, 3), (1, 0x455a14ed, 20, 8),
     (1, 0xa9e3e905, 5, 13), (1, 0xfcefa3f8, 9, 2), (1, 0x676f02d9, 14, 7), (1, 0x8d2a4c8a, 20, 12),
     (2, 0xfffa3942, 4, 5), (2, 0x8771f681, 11, 8), (2, 0x6d9d6122, 16, 11), (2, 0xfde5380c, 23, 14),
     (2, 0xa4beea44, 4, 1), (2, 0x4bdecfa9, 11, 4), (2, 0xf6bb4b60, 16, 7), (2, 0xbebfbc70, 23, 10),
     (2, 0x289b7ec6, 4, 13), (2, 0xeaa127fa, 11, 0), (2, 0xd4ef3085, 16, 3), (2, 0x04881d05, 23, 6),
     (2, 0xd9d4d039, 4, 9), (2, 0xe6db99e5, 11, 12), (2, 0x1fa27cf8, 16, 15), (2, 0xc4ac5665, 23, 2),
     (3, 0xf4292244, 6, 0), (3, 0x432aff97, 10, 7), (3, 0xab9423a7, 15, 14), (3, 0xfc93a039, 21, 5),
     (3, 0x655b59c3, 6, 12), (3, 0x8f0ccc92, 10, 3), (3, 0xffeff47d, 15, 10), (3, 0x85845dd1, 21, 1),
     (3, 0x6fa87e4f, 6, 8), (3, 0xfe2ce6e0, 10, 15), (3, 0xa3014314, 15, 6), (3, 0x4e0811a1, 21, 13),
     (3, 0xf7537e82, 6, 4), (3, 0xbd3af235, 10, 11), (3, 0x2ad7d2bb, 15, 2), (3, 0xeb86d391, 21, 9)]"

type_synonym md5_state = "32 word \<times> 32 word \<times> 32 word \<times> 32 word"

definition md5_f :: "nat \<Rightarrow> 32 word \<Rightarrow> 32 word \<Rightarrow> 32 word \<Rightarrow> 32 word" where
  "md5_f r b c d =
     (if r = 0 then (b AND c) OR (NOT b AND d)
      else if r = 1 then (d AND b) OR (NOT d AND c)
      else if r = 2 then b XOR c XOR d
      else c XOR (b OR NOT d))"

definition md5_step :: "32 word list \<Rightarrow> (nat \<times> 32 word \<times> nat \<times> nat) \<Rightarrow> md5_state \<Rightarrow> md5_state" where
  "md5_step m row st =
     (case row of (r, k, s, g) \<Rightarrow>
      case st of (a, b, c, d) \<Rightarrow>
        (d, b + word_rotl s (md5_f r b c d + a + k + m ! g), b, c))"

definition md5_block :: "md5_state \<Rightarrow> 32 word list \<Rightarrow> md5_state" where
  "md5_block st m =
     (case st of (a0, b0, c0, d0) \<Rightarrow>
      case fold (md5_step m) md5_table st of (a, b, c, d) \<Rightarrow>
        (a0 + a, b0 + b, c0 + c, d0 + d))"

fun le_bytes :: "nat \<Rightarrow> int \<Rightarrow> int list" where
  "le_bytes 0 v = []"
| "le_bytes (Suc n) v = (v mod 256) # le_bytes n (v div 256)"

definition md5_pad :: "int list \<Rightarrow> int list" where
  "md5_pad bs = bs @ [128] @ replicate ((119 - length bs mod 64) mod 64) 0 @ le_bytes 8 (8 * int (length bs))"

fun le_words :: "int list \<Rightarrow> 32 word list" where
  "le_words (b0 # b1 # b2 # b3 # rest) =
     word_of_int (b0 + 256 * (b1 + 256 * (b2 + 256 * b3))) # le_words rest"
| "le_words _ = []"

fun md5_blocks :: "md5_state \<Rightarrow> 32 word list \<Rightarrow> md5_state" where
  "md5_blocks st [] = st"
| "md5_blocks st ws = md5_blocks (md5_block st (take 16 ws)) (drop 16 ws)"

definition hex_digit :: "int \<Rightarrow> char" where
  "hex_digit n = ''0123456789abcdef'' ! nat n"

definition hex_byte :: "int \<Rightarrow> string" where
  "hex_byte b = [hex_digit (b div 16), hex_digit (b mod 16)]"

definition md5_hexdigest :: "string \<Rightarrow> string" where
  "md5_hexdigest s =
     (case md5_blocks (0x67452301, 0xefcdab89, 0x98badcfe, 0x10325476)
             (le_words (md5_pad (map of_char s))) of
        (a, b, c, d) \<Rightarrow> concat (map hex_byte (concat (map (\<lambda>w. le_bytes 4 (uint w)) [a, b, c, d]))))"

text \<open>SHA-1.\<close>

fun be_bytes :: "nat \<Rightarrow> int \<Rightarrow> int list" where
  "be_bytes 0 v = []"
| "be_bytes (Suc n) v = be_bytes n (v div 256) @ [v mod 256]"

definition sha1_pad :: "int list \<Rightarrow> int list" where
  "sha1_pad bs = bs @ [128] @ replicate ((119 - length bs mod 64) mod 64) 0 @ be_bytes 8 (8 * int (length bs))"

fun be_words :: "int list \<Rightarrow> 32 word list" where
  "be_words (b0 # b1 # b2 # b3 # rest) =
     word_of_int (b3 + 256 * (b2 + 256 * (b1 + 256 * b0))) # be_words rest"
| "be_words _ = []"

text \<open>The message schedule, kept newest word first while it is extended.\<close>

fun sha1_extend :: "nat \<Rightarrow> 32 word list \<Rightarrow> 32 word list" where
  "sha1_extend 0 rw = rw"
| "sha1_extend (Suc n) rw =
     sha1_extend n (word_rotl 1 (rw ! 2 XOR rw ! 7 XOR rw ! 13 XOR rw ! 15) # rw)"

definition sha1_schedule :: "32 word list \<Rightarrow> 32 word list" where
  "sha1_schedule m = rev (sha1_extend 64 (rev m))"

type_synonym sha1_state = "32 word \<times> 32 word \<times> 32 word \<times> 32 word \<times> 32 word"

definition sha1_f :: "nat \<Rightarrow> 32 word \<Rightarrow> 32 word \<Rightarrow> 32 word \<Rightarrow> 32 word" where
  "sha1_f t b c d =
     (if t < 20 then (b AND c) OR (NOT b AND d)
      else if t < 40 then b XOR c XOR d
      else if t < 60 then (b AND c) OR (b AND d) OR (c AND d)
      else b XOR c XOR d)"

definition sha1_k :: "nat \<Rightarrow> 32 word" where
  "sha1_k t =
     (if t < 20 then 0x5a827999
      else if t < 40 then 0x6ed9eba1
      else if t < 60 then 0x8f1bbcdc
      else 0xca62c1d6)"

definition sha1_step :: "nat \<times> 32 word \<Rightarrow> sha1_state \<Rightarrow> sha1_state" where
  "sha1_step tw st =
     (case tw of (t, w) \<Rightarrow>
      case st of (a, b, c, d, e) \<Rightarrow>
        (word_rotl 5 a + sha1_f t b c d + e + sha1_k t + w, a, word_rotl 30 b, c, d))"

definition sha1_block :: "sha1_state \<Rightarrow> 32 word list \<Rightarrow> sha1_state" where
  "sha1_block st m =
     (case st of (h0, h1, h2, h3, h4) \<Rightarrow>
      case fold sha1_step (zip [0..<80] (sha1_schedule m)) st of (a, b, c, d, e) \<Rightarrow>
        (h0 + a, h1 + b, h2 + c, h3 + d, h4 + e))"

fun sha1_blocks :: "sha1_state \<Rightarrow> 32 word list \<Rightarrow> sha1_state" where
  "sha1_blocks st [] = st"
| "sha1_blocks st ws = sha1_blocks (sha1_block st (take 16 ws)) (drop 16 ws)"

definition sha1_hexdigest :: "string \<Rightarrow> string" where
  "sha1_hexdigest s =
     (case sha1_blocks (0x67452301, 0xefcdab89, 0x98badcfe, 0x10325476, 0xc3d2e1f0)
             (be_words (sha1_pad (map of_char s))) of
        (a, b, c, d, e) \<Rightarrow>
          concat (map hex_byte (concat (map (\<lambda>w. be_bytes 4 (uint w)) [a, b, c, d, e]))))"

section \<open>Common data\<close>

text \<open>
  Python exceptions that the modelled functions can raise. A function that can raise
  returns \<open>py_error + 'a\<close>, with \<open>Inl\<close> for the exception.
\<close>

datatype py_error = IndexError | KeyError | TypeError | ValueError | UnboundLocalError
  | ZeroDivisionError
  | FrameSourceError

text \<open>
  A bounding box is the four-element list \<open>[x1, y1, x2, y2]\<close>. Every function below
  unpacks or indexes exactly these four positions, so the box is a 4-tuple here.
  Coordinates, confidences and thresholds are Python floats; they are modelled as reals,
  so rounding is outside the model.
\<close>

type_synonym bbox = "real \<times> real \<times> real \<times> real"

type_synonym point = "real \<times> real"

section \<open>utils/roi.py: geometry\<close>

definition iou :: "bbox \<Rightarrow> bbox \<Rightarrow> real" where
  "iou box1 box2 =
     (case box1 of (x1_1, y1_1, x2_1, y2_1) \<Rightarrow>
      case box2 of (x1_2, y1_2, x2_2, y2_2) \<Rightarrow>
        let x1_i = max x1_1 x1_2;
            y1_i = max y1_1 y1_2;
            x2_i = min x2_1 x2_2;
            y2_i = min y2_1 y2_2
        in if x2_i \<le> x1_i \<or> y2_i \<le> y1_i then 0
           else
             let intersection_area = (x2_i - x1_i) * (y2_i - y1_i);
                 box1_area = (x2_1 - x1_1) * (y2_1 - y1_1);
                 box2_area = (x2_2 - x1_2) * (y2_2 - y1_2);
                 union_area = box1_area + box2_area - intersection_area
             in if union_area \<le> 0 then 0 else intersection_area / union_area)"

text \<open>
  The ray-casting loop of \<open>point_in_polygon\<close>. The loop state is the previous vertex,
  the \<open>inside\<close> flag and the local \<open>xinters\<close>, which is unbound until the first
  assignment: reading it unbound raises UnboundLocalError.
\<close>

record pip_state =
  p1x :: real
  p1y :: real
  inside :: bool
  xinters :: "real option"

definition pip_step :: "real \<Rightarrow> real \<Rightarrow> point \<Rightarrow> pip_state \<Rightarrow> py_error + pip_state" where
  "pip_step x y p2 s =
     (case p2 of (p2x, p2y) \<Rightarrow>
        let advance = (\<lambda>t. t\<lparr>p1x := p2x, p1y := p2y\<rparr>) in
        if y > min (p1y s) p2y then
          if y \<le> max (p1y s) p2y then
            if x \<le> max (p1x s) p2x then
              let s1 = (if p1y s \<noteq> p2y
                        then s\<lparr>xinters := Some ((y - p1y s) * (p2x - p1x s) / (p2y - p1y s) + p1x s)\<rparr>
                        else s)
              in if p1x s = p2x then Inr (advance (s1\<lparr>inside := \<not> inside s1\<rparr>))
                 else (case xinters s1 of
                         None \<Rightarrow> Inl UnboundLocalError
                       | Some xi \<Rightarrow>
                           if x \<le> xi then Inr (advance (s1\<lparr>inside := \<not> inside s1\<rparr>))
                           else Inr (advance s1))
            else Inr (advance s)
          else Inr (advance s)
        else Inr (advance s))"

text \<open>The loop \<open>for i in range(1, n + 1)\<close>, reading \<open>polygon[i % n]\<close>.\<close>

fun pip_loop :: "point list \<Rightarrow> real \<Rightarrow> real \<Rightarrow> nat list \<Rightarrow> pip_state \<Rightarrow> py_error + pip_state" where
  "pip_loop polygon x y [] s = Inr s"
| "pip_loop polygon x y (i # is) s =
     (case pip_step x y (polygon ! (i mod length polygon)) s of
        Inl e \<Rightarrow> Inl e
      | Inr s' \<Rightarrow> pip_loop polygon x y is s')"

definition pip_body :: "point \<Rightarrow> point list \<Rightarrow> py_error + bool" where
  "pip_body point polygon =
     (case point of (x, y) \<Rightarrow>
        let n = length polygon in
        case polygon of
          [] \<Rightarrow> Inl IndexError
        | (p1x0, p1y0) # _ \<Rightarrow>
            (case pip_loop polygon x y [1..<n + 1]
                    \<lparr>p1x = p1x0, p1y = p1y0, inside = False, xinters = None\<rparr> of
               Inl e \<Rightarrow> Inl e
             | Inr s \<Rightarrow> Inr (inside s)))"

text \<open>\<open>utils/roi.py\<close>: the copy with the guard on short polygons.\<close>

definition point_in_polygon :: "point \<Rightarrow> point list \<Rightarrow> py_error + bool" where
  "point_in_polygon point polygon =
     (if polygon = [] \<or> length polygon < 3 then Inr False
      else pip_body point polygon)"

text \<open>\<open>detectors/base.py\<close>: the copy without the guard; it starts at \<open>polygon[0]\<close>.\<close>

definition base_point_in_polygon :: "point \<Rightarrow> point list \<Rightarrow> py_error + bool" where
  "base_point_in_polygon point polygon = pip_body point polygon"

section \<open>utils/roi.py: TemporalBuffer and temporal_confirm\<close>

text \<open>A buffer entry is the tuple \<open>(label, bbox, confidence, frame_idx)\<close>.\<close>

type_synonym entry = "string \<times> bbox \<times> real \<times> int"

text \<open>
  \<open>collections.deque(maxlen=m).append(x)\<close>: append on the right, and when the deque
  is longer than \<open>m\<close> discard from the left.
\<close>

definition deque_append :: "nat \<Rightarrow> 'a list \<Rightarrow> 'a \<Rightarrow> 'a list" where
  "deque_append m xs x = (let ys = xs @ [x] in drop (length ys - m) ys)"

record temporal_buffer =
  maxlen :: nat
  buffer :: "entry list"
  frame_counter :: int

definition TemporalBuffer :: "nat \<Rightarrow> temporal_buffer" where
  "TemporalBuffer m = \<lparr>maxlen = m, buffer = [], frame_counter = 0\<rparr>"

definition add :: "temporal_buffer \<Rightarrow> string \<Rightarrow> bbox \<Rightarrow> real \<Rightarrow> int option \<Rightarrow> temporal_buffer" where
  "add tb label bb confidence frame_idx =
     (case frame_idx of
        None \<Rightarrow>
          tb\<lparr>buffer := deque_append (maxlen tb) (buffer tb) (label, bb, confidence, frame_counter tb),
             frame_counter := frame_counter tb + 1\<rparr>
      | Some f \<Rightarrow>
          tb\<lparr>buffer := deque_append (maxlen tb) (buffer tb) (label, bb, confidence, f)\<rparr>)"

fun count_similar_loop :: "entry list \<Rightarrow> string \<Rightarrow> bbox \<Rightarrow> real \<Rightarrow> int \<Rightarrow> int" where
  "count_similar_loop [] label bb iou_threshold count = count"
| "count_similar_loop ((buf_label, buf_bbox, _, _) # rest) label bb iou_threshold count =
     (if buf_label \<noteq> label then count_similar_loop rest label bb iou_threshold count
      else
        let overlap = iou bb buf_bbox
        in if overlap \<ge> iou_threshold
           then count_similar_loop rest label bb iou_threshold (count + 1)
           else count_similar_loop rest label bb iou_threshold count)"

definition count_similar :: "temporal_buffer \<Rightarrow> string \<Rightarrow> bbox \<Rightarrow> real \<Rightarrow> int" where
  "count_similar tb label bb iou_threshold = count_similar_loop (buffer tb) label bb iou_threshold 0"

definition temporal_confirm ::
  "temporal_buffer \<Rightarrow> string \<Rightarrow> bbox \<Rightarrow> real \<Rightarrow> int \<Rightarrow> real \<Rightarrow> int option \<Rightarrow> bool \<times> temporal_buffer" where
  "temporal_confirm tb label bb confidence min_confirmations iou_threshold frame_idx =
     (let count = count_similar tb label bb iou_threshold;
          tb' = add tb label bb confidence frame_idx
      in (count \<ge> min_confirmations - 1, tb'))"

text \<open>A detection offered to temporal confirmation: label, bbox, confidence, frame index.\<close>

type_synonym call = "string \<times> bbox \<times> real \<times> int option"

text \<open>Successive calls on the same buffer; the results in call order.\<close>

fun confirm_calls :: "temporal_buffer \<Rightarrow> call list \<Rightarrow> int \<Rightarrow> real \<Rightarrow> bool list \<times> temporal_buffer" where
  "confirm_calls tb [] min_confirmations iou_threshold = ([], tb)"
| "confirm_calls tb ((label, bb, confidence, frame_idx) # cs) min_confirmations iou_threshold =
     (case temporal_confirm tb label bb confidence min_confirmations iou_threshold frame_idx of
        (r, tb') \<Rightarrow>
          (case confirm_calls tb' cs min_confirmations iou_threshold of
             (rs, tb'') \<Rightarrow> (r # rs, tb'')))"

text \<open>
  Every call's bbox has IoU at least the threshold against every entry the buffer holds
  when the call is made.
\<close>

fun overlaps_held :: "temporal_buffer \<Rightarrow> call list \<Rightarrow> real \<Rightarrow> bool" where
  "overlaps_held tb [] iou_threshold = True"
| "overlaps_held tb ((label, bb, confidence, frame_idx) # cs) iou_threshold =
     (list_all (\<lambda>(_, buf_bbox, _, _). iou bb buf_bbox \<ge> iou_threshold) (buffer tb)
      \<and> overlaps_held (add tb label bb confidence frame_idx) cs iou_threshold)"

section \<open>detectors/base.py: TemporalConfirmationHelper\<close>

definition calculate_iou :: "bbox \<Rightarrow> bbox \<Rightarrow> real" where
  "calculate_iou box1 box2 =
     (case box1 of (x1_1, y1_1, x2_1, y2_1) \<Rightarrow>
      case box2 of (x1_2, y1_2, x2_2, y2_2) \<Rightarrow>
        let x1_i = max x1_1 x1_2;
            y1_i = max y1_1 y1_2;
            x2_i = min x2_1 x2_2;
            y2_i = min y2_1 y2_2
        in if x2_i \<le> x1_i \<or> y2_i \<le> y1_i then 0
           else
             let intersection = (x2_i - x1_i) * (y2_i - y1_i);
                 area1 = (x2_1 - x1_1) * (y2_1 - y1_1);
                 area2 = (x2_2 - x1_2) * (y2_2 - y1_2);
                 union = area1 + area2 - intersection
             in if union \<le> 0 then 0 else intersection / union)"

record temporal_detection =
  td_label :: string
  td_bbox :: bbox
  td_conf :: real
  td_timestamp :: real
  td_frame_index :: int

text \<open>
  The helper keeps one deque per camera in the dict \<open>_history\<close>; each deque has
  \<open>maxlen = window_frames\<close>.
\<close>

record temporal_helper =
  window_frames :: int
  helper_iou_threshold :: real
  helper_min_confirmations :: int
  history :: "string \<rightharpoonup> temporal_detection list"

definition TemporalConfirmationHelper :: "int \<Rightarrow> real \<Rightarrow> int \<Rightarrow> py_error + temporal_helper" where
  "TemporalConfirmationHelper w thr m =
     (if \<not> (1 \<le> w \<and> w \<le> 100) then Inl ValueError
      else if \<not> (0 \<le> thr \<and> thr \<le> 1) then Inl ValueError
      else if \<not> (1 \<le> m \<and> m \<le> w) then Inl ValueError
      else Inr \<lparr>window_frames = w, helper_iou_threshold = thr, helper_min_confirmations = m,
                history = Map.empty\<rparr>)"

definition add_detection ::
  "temporal_helper \<Rightarrow> string \<Rightarrow> string \<Rightarrow> bbox \<Rightarrow> real \<Rightarrow> int \<Rightarrow> real \<Rightarrow> temporal_helper" where
  "add_detection h camera_id label bb conf frame_index now =
     (let hist = (case history h camera_id of None \<Rightarrow> [] | Some d \<Rightarrow> d);
          detection = \<lparr>td_label = label, td_bbox = bb, td_conf = conf, td_timestamp = now,
                       td_frame_index = frame_index\<rparr>
      in h\<lparr>history := (history h)(camera_id \<mapsto> deque_append (nat (window_frames h)) hist detection)\<rparr>)"

fun confirmations_loop :: "temporal_detection list \<Rightarrow> string \<Rightarrow> bbox \<Rightarrow> real \<Rightarrow> int \<Rightarrow> int" where
  "confirmations_loop [] label bb thr confirmations = confirmations"
| "confirmations_loop (past_det # rest) label bb thr confirmations =
     (if td_label past_det \<noteq> label then confirmations_loop rest label bb thr confirmations
      else
        let i = calculate_iou bb (td_bbox past_det)
        in if i \<ge> thr then confirmations_loop rest label bb thr (confirmations + 1)
           else confirmations_loop rest label bb thr confirmations)"

definition check_confirmation :: "temporal_helper \<Rightarrow> string \<Rightarrow> string \<Rightarrow> bbox \<Rightarrow> bool" where
  "check_confirmation h camera_id label bb =
     (case history h camera_id of
        None \<Rightarrow> False
      | Some hist \<Rightarrow>
          if int (length hist) < helper_min_confirmations h then False
          else confirmations_loop hist label bb (helper_iou_threshold h) 0
                 \<ge> helper_min_confirmations h)"

definition add_and_check ::
  "temporal_helper \<Rightarrow> string \<Rightarrow> string \<Rightarrow> bbox \<Rightarrow> real \<Rightarrow> int \<Rightarrow> real \<Rightarrow> bool \<times> temporal_helper" where
  "add_and_check h camera_id label bb conf frame_index now =
     (let confirmed = check_confirmation h camera_id label bb;
          h' = add_detection h camera_id label bb conf frame_index now
      in (confirmed, h'))"

text \<open>
  Successive \<open>add_and_check\<close> calls for one camera; a call is
  \<open>(label, bbox, conf, frame_index)\<close> and the clock value read by \<open>time.time()\<close>.
\<close>

fun helper_calls ::
  "temporal_helper \<Rightarrow> string \<Rightarrow> ((string \<times> bbox \<times> real \<times> int) \<times> real) list \<Rightarrow> bool list \<times> temporal_helper" where
  "helper_calls h camera_id [] = ([], h)"
| "helper_calls h camera_id (((label, bb, conf, frame_index), now) # cs) =
     (case add_and_check h camera_id label bb conf frame_index now of
        (r, h') \<Rightarrow>
          (case helper_calls h' camera_id cs of
             (rs, h'') \<Rightarrow> (r # rs, h'')))"

section \<open>publisher/ddb.py: float normalisation\<close>

text \<open>
  Python values as the publishers meet them (\<open>Dict[str, Any]\<close>): None, booleans,
  integers, floats, \<open>Decimal\<close>s, strings, lists, tuples, sets, dicts and instances of
  other classes. A float is a real number here. A dict is an association list in
  insertion order whose keys are values themselves; a set lists its members; an instance
  of another class is named by its class and is taken to define no operators of its own
  (no item access, no arithmetic).
\<close>

datatype pyval =
    PNone
  | PBool bool
  | PInt int
  | PFloat real
  | PDecimal real
  | PStr string
  | PList "pyval list"
  | PTuple "pyval list"
  | PSet "pyval list"
  | PDict "(pyval \<times> pyval) list"
  | PObject string









section \<open>publisher/kds.py: event ids\<close>

text \<open>Python's \<open>str\<close> of an \<open>int\<close>, as the f-string renders \<open>ts_bucket\<close>.\<close>

fun str_nat :: "nat \<Rightarrow> string" where
  "str_nat n = (if n < 10 then [char_of (48 + n)] else str_nat (n div 10) @ [char_of (48 + n mod 10)])"

declare str_nat.simps [simp del]

definition str_int :: "int \<Rightarrow> string" where
  "str_int i = (if i < 0 then CHR ''-'' # str_nat (nat (- i)) else str_nat (nat i))"

text \<open>The local \<open>hash_input\<close> of \<open>_generate_event_id\<close>; \<open>//\<close> is floor division.\<close>

definition event_id_hash_input :: "string \<Rightarrow> string \<Rightarrow> string \<Rightarrow> int \<Rightarrow> string" where
  "event_id_hash_input camera_id event_type label ts_ms =
     (let ts_bucket = ts_ms div 1000
      in camera_id @ '':'' @ event_type @ '':'' @ label @ '':'' @ str_int ts_bucket)"

definition generate_event_id :: "string \<Rightarrow> string \<Rightarrow> string \<Rightarrow> int \<Rightarrow> string" where
  "generate_event_id camera_id event_type label ts_ms =
     sha1_hexdigest (event_id_hash_input camera_id event_type label ts_ms)"

section \<open>publisher/kds.py: KDSClient\<close>

text \<open>
  The event handed to \<open>put_event\<close> is a \<open>Dict[str, Any]\<close>, so a value like any other.
  An f-string renders a string as it is and an integer by \<open>str_int\<close>; how \<open>str\<close>
  renders the other values (floats, containers, objects) is a parameter.
\<close>

definition format_value :: "(pyval \<Rightarrow> string) \<Rightarrow> pyval \<Rightarrow> string" where
  "format_value str v = (case v of PStr s \<Rightarrow> s | PInt i \<Rightarrow> str_int i | _ \<Rightarrow> str v)"


text \<open>
  \<open>ts_ms // 1000\<close> on whatever the event holds: floor division on an integer, a
  boolean (an integer in Python) and a float, division truncated towards zero on a
  \<open>Decimal\<close>, TypeError on everything else.
\<close>

definition floordiv_1000 :: "pyval \<Rightarrow> py_error + pyval" where
  "floordiv_1000 ts_ms =
     (case ts_ms of
        PInt i \<Rightarrow> Inr (PInt (i div 1000))
      | PBool b \<Rightarrow> Inr (PInt ((if b then 1 else 0) div 1000))
      | PFloat r \<Rightarrow> Inr (PFloat (of_int \<lfloor>r / 1000\<rfloor>))
      | PDecimal r \<Rightarrow> Inr (PDecimal (of_int (if r < 0 then - \<lfloor>- r / 1000\<rfloor> else \<lfloor>r / 1000\<rfloor>)))
      | _ \<Rightarrow> Inl TypeError)"

text \<open>
  \<open>_generate_event_id\<close> as \<open>_create_event_envelope\<close> calls it, on the values found in
  the event dict; on three strings and an integer it is \<open>generate_event_id\<close>.
\<close>

definition generate_event_id_any ::
  "(pyval \<Rightarrow> string) \<Rightarrow> pyval \<Rightarrow> pyval \<Rightarrow> pyval \<Rightarrow> pyval \<Rightarrow> py_error + string" where
  "generate_event_id_any str camera_id event_type label ts_ms =
     (case floordiv_1000 ts_ms of
        Inl e \<Rightarrow> Inl e
      | Inr ts_bucket \<Rightarrow>
          let hash_input = format_value str camera_id @ '':'' @ format_value str event_type @ '':''
                             @ format_value str label @ '':'' @ format_value str ts_bucket
          in Inr (sha1_hexdigest hash_input))"

record envelope =
  env_event_id :: string
  env_camera_id :: pyval
  env_producer :: string
  env_payload :: pyval


text \<open>A record of a request: \<open>Data\<close> and \<open>PartitionKey\<close>.\<close>

type_synonym kds_record = "string \<times> string"

text \<open>
  What one \<open>put_records\<close> call gives back: a response with its optional
  \<open>FailedRecordCount\<close> and \<open>Records\<close> (per record the \<open>ErrorCode\<close>, when present),
  a \<open>ClientError\<close> with its error code, or another exception.
\<close>

datatype put_result =
    Response "int option" "string option list option"
  | ClientError string
  | OtherException

text \<open>
  The world outside the client: the answer to the \<open>n\<close>-th \<open>put_records\<close> request, the
  \<open>n\<close>-th value drawn by \<open>random.uniform(0.8, 1.2)\<close>, \<open>json.dumps\<close>, which raises
  TypeError on a value it cannot serialise, and \<open>str\<close> on the values an f-string does
  not render by itself.
\<close>

record kds_env =
  put_records :: "nat \<Rightarrow> put_result"
  kds_jitter :: "nat \<Rightarrow> real"
  json_dumps :: "envelope \<Rightarrow> py_error + string"
  py_str :: "pyval \<Rightarrow> string"

record kds_metrics =
  published :: int
  failed :: int
  retried :: int
  batches_sent :: int

text \<open>
  The client; \<open>requests\<close> and \<open>sleeps\<close> log the requests sent and the seconds slept,
  oldest first.
\<close>

record kds_client =
  batch_size :: int
  max_retries :: int
  base_backoff_ms :: int
  producer_version :: string
  batch_buffer :: "(envelope \<times> string) list"
  metrics :: kds_metrics
  requests :: "kds_record list list"
  sleeps :: "real list"



definition backoff_sleep :: "kds_env \<Rightarrow> int \<Rightarrow> kds_record list \<Rightarrow> kds_client \<Rightarrow> kds_client" where
  "backoff_sleep env attempt failed_records c =
     (let backoff_ms = real_of_int (base_backoff_ms c) * 2 ^ nat attempt;
          jitter = kds_jitter env (length (sleeps c));
          sleep_ms = backoff_ms * jitter
      in c\<lparr>sleeps := sleeps c @ [sleep_ms / 1000],
           metrics := (metrics c)\<lparr>retried := retried (metrics c) + int (length failed_records)\<rparr>\<rparr>)"

definition count_failed :: "kds_record list \<Rightarrow> kds_client \<Rightarrow> kds_client" where
  "count_failed failed_records c =
     c\<lparr>metrics := (metrics c)\<lparr>failed := failed (metrics c) + int (length failed_records)\<rparr>\<rparr>"












section \<open>frame_source/kvs_hls.py: KVSHLSFrameSource\<close>

datatype connection_state = DISCONNECTED | CONNECTING | CONNECTED | RECONNECTING | ERROR

record hls_metrics =
  reconnects_total :: int
  frames_total :: int
  last_frame_timestamp :: "real option"
  url_refreshes_total :: int
  read_errors_total :: int

text \<open>What a \<open>cv2.VideoCapture(url)\<close> does: it opens, stays closed, or the call raises.\<close>

datatype open_result = Opened | NotOpened | OpenRaises

text \<open>
  What \<open>capture.read()\<close> does: it gives a frame (named by a number), gives none
  (\<open>ret\<close> false or the frame None), or raises.
\<close>

datatype capture_read = ReadFrame nat | ReadNothing | ReadRaises

text \<open>
  The world outside the source, each answer indexed by how many times the source has
  asked before: the clock \<open>time.time()\<close>, \<open>_get_hls_url\<close> through the KVS API (None
  when it raises KVSConnectionError), the captures created, \<open>isOpened()\<close> asked before
  a read, the reads, and the draws of \<open>random.uniform(0.8, 1.2)\<close>.
\<close>

record hls_env =
  hls_clock :: "nat \<Rightarrow> real"
  hls_url_answer :: "nat \<Rightarrow> string option"
  capture_opens :: "nat \<Rightarrow> open_result"
  capture_is_opened :: "nat \<Rightarrow> bool"
  capture_reads :: "nat \<Rightarrow> capture_read"
  hls_jitter :: "nat \<Rightarrow> real"

text \<open>
  The source: its configuration, its private state, its metrics, the seconds slept so far
  (oldest first) and the number of questions asked of each part of the world. The
  capture held is named by the number of its creation.
\<close>

record hls_source =
  hls_session_seconds :: real
  url_refresh_margin :: real
  reconnect_delay :: real
  max_reconnect_delay :: real
  backoff_multiplier :: real
  max_consecutive_errors :: int
  hls_url :: "string option"
  url_timestamp :: "real option"
  capture :: "nat option"
  connection_state :: connection_state
  consecutive_errors :: int
  current_backoff :: real
  hls_metrics :: hls_metrics
  slept :: "real list"
  clock_reads :: nat
  url_requests :: nat
  captures_created :: nat
  opened_checks :: nat
  frame_reads :: nat

text \<open>\<open>str.strip()\<close> leaves nothing: every character is white space (ASCII strings).\<close>

definition is_space :: "char \<Rightarrow> bool" where
  "is_space ch = (let n = (of_char ch :: nat) in (9 \<le> n \<and> n \<le> 13) \<or> (28 \<le> n \<and> n \<le> 32))"

definition blank :: "string \<Rightarrow> bool" where
  "blank s = list_all is_space s"

text \<open>\<open>__init__\<close> with its four checks.\<close>

definition KVSHLSFrameSource ::
  "string \<Rightarrow> string \<Rightarrow> real \<Rightarrow> real \<Rightarrow> real \<Rightarrow> real \<Rightarrow> real \<Rightarrow> int \<Rightarrow> py_error + hls_source" where
  "KVSHLSFrameSource camera_id stream_name session margin delay max_delay multiplier max_errors =
     (if camera_id = [] \<or> blank camera_id then Inl ValueError
      else if stream_name = [] \<or> blank stream_name then Inl ValueError
      else if \<not> (60 \<le> session \<and> session \<le> 43200) then Inl ValueError
      else if margin \<ge> session then Inl ValueError
      else Inr \<lparr>hls_session_seconds = session, url_refresh_margin = margin,
                reconnect_delay = delay, max_reconnect_delay = max_delay,
                backoff_multiplier = multiplier, max_consecutive_errors = max_errors,
                hls_url = None, url_timestamp = None, capture = None,
                connection_state = DISCONNECTED, consecutive_errors = 0,
                current_backoff = delay,
                hls_metrics = \<lparr>reconnects_total = 0, frames_total = 0, last_frame_timestamp = None,
                               url_refreshes_total = 0, read_errors_total = 0\<rparr>,
                slept = [], clock_reads = 0, url_requests = 0, captures_created = 0,
                opened_checks = 0, frame_reads = 0\<rparr>)"

text \<open>\<open>time.time()\<close>.\<close>

definition time_time :: "hls_env \<Rightarrow> hls_source \<Rightarrow> real \<times> hls_source" where
  "time_time env s = (hls_clock env (clock_reads s), s\<lparr>clock_reads := clock_reads s + 1\<rparr>)"

definition should_refresh_url :: "hls_env \<Rightarrow> hls_source \<Rightarrow> bool \<times> hls_source" where
  "should_refresh_url env s =
     (case url_timestamp s of
        None \<Rightarrow> (True, s)
      | Some ts \<Rightarrow>
          (case time_time env s of
             (now, s1) \<Rightarrow>
               let elapsed = now - ts;
                   refresh_threshold = hls_session_seconds s1 - url_refresh_margin s1
               in (elapsed \<ge> refresh_threshold, s1)))"

text \<open>
  \<open>_get_hls_url\<close>: the URL, or None when it raises KVSConnectionError (every exception
  of the two API calls ends there); the metric counts the successes.
\<close>

definition get_hls_url :: "hls_env \<Rightarrow> hls_source \<Rightarrow> string option \<times> hls_source" where
  "get_hls_url env s =
     (let s1 = s\<lparr>url_requests := url_requests s + 1\<rparr>
      in (case hls_url_answer env (url_requests s) of
            None \<Rightarrow> (None, s1)
          | Some url \<Rightarrow>
              (Some url, s1\<lparr>hls_metrics := (hls_metrics s1)
                             \<lparr>url_refreshes_total := url_refreshes_total (hls_metrics s1) + 1\<rparr>\<rparr>)))"

definition refresh_url_if_needed :: "hls_env \<Rightarrow> hls_source \<Rightarrow> bool \<times> hls_source" where
  "refresh_url_if_needed env s =
     (case should_refresh_url env s of
        (needed, s1) \<Rightarrow>
          if \<not> needed then (True, s1)
          else
            (case should_refresh_url env s1 of
               (needed2, s2) \<Rightarrow>
                 if \<not> needed2 then (True, s2)
                 else
                   (case get_hls_url env s2 of
                      (None, s3) \<Rightarrow> (False, s3)
                    | (Some url, s3) \<Rightarrow>
                        (case time_time env (s3\<lparr>hls_url := Some url\<rparr>) of
                           (now, s4) \<Rightarrow>
                             (True, s4\<lparr>url_timestamp := Some now,
                                       connection_state := RECONNECTING\<rparr>)))))"

definition calculate_backoff_delay :: "hls_env \<Rightarrow> hls_source \<Rightarrow> real \<times> hls_source" where
  "calculate_backoff_delay env s =
     (let delay = min (current_backoff s) (max_reconnect_delay s);
          jitter = hls_jitter env (length (slept s));
          delay_with_jitter = delay * jitter
      in (delay_with_jitter,
          s\<lparr>current_backoff := min (current_backoff s * backoff_multiplier s) (max_reconnect_delay s)\<rparr>))"

definition reset_backoff :: "hls_source \<Rightarrow> hls_source" where
  "reset_backoff s = s\<lparr>current_backoff := reconnect_delay s, consecutive_errors := 0\<rparr>"

text \<open>
  \<open>_open_stream\<close>. An error while releasing the old capture is logged and has no other
  effect, so \<open>release()\<close> is not a question to the world here.
\<close>

definition open_stream :: "hls_env \<Rightarrow> hls_source \<Rightarrow> bool \<times> hls_source" where
  "open_stream env s =
     (let s1 = s\<lparr>connection_state := CONNECTING\<rparr> in
      (case (if hls_url s1 = None then (True, s1) else should_refresh_url env s1) of
         (needed, s2) \<Rightarrow>
           (case (if needed
                  then (case get_hls_url env s2 of
                          (None, s3) \<Rightarrow> (False, s3)
                        | (Some url, s3) \<Rightarrow>
                            (case time_time env (s3\<lparr>hls_url := Some url\<rparr>) of
                               (now, s4) \<Rightarrow> (True, s4\<lparr>url_timestamp := Some now\<rparr>)))
                  else (True, s2)) of
              (False, s5) \<Rightarrow> (False, s5\<lparr>connection_state := ERROR\<rparr>)
            | (True, s5) \<Rightarrow>
                let s6 = s5\<lparr>capture := None, captures_created := captures_created s5 + 1\<rparr>
                in (case capture_opens env (captures_created s5) of
                      OpenRaises \<Rightarrow> (False, s6\<lparr>connection_state := ERROR\<rparr>)
                    | NotOpened \<Rightarrow>
                        (False, s6\<lparr>capture := Some (captures_created s5), connection_state := ERROR\<rparr>)
                    | Opened \<Rightarrow>
                        (True, reset_backoff
                                 (s6\<lparr>capture := Some (captures_created s5),
                                     connection_state := CONNECTED\<rparr>))))))"

text \<open>
  \<open>_handle_reconnect\<close>: it raises FrameSourceError once the count reaches the limit,
  and otherwise sleeps and reopens.
\<close>

definition handle_reconnect :: "hls_env \<Rightarrow> hls_source \<Rightarrow> (py_error + bool) \<times> hls_source" where
  "handle_reconnect env s =
     (let s1 = s\<lparr>consecutive_errors := consecutive_errors s + 1\<rparr> in
      if consecutive_errors s1 \<ge> max_consecutive_errors s1 then (Inl FrameSourceError, s1)
      else
        (case calculate_backoff_delay env s1 of
           (delay, s2) \<Rightarrow>
             let s3 = s2\<lparr>slept := slept s2 @ [delay]\<rparr>;
                 s4 = s3\<lparr>hls_metrics := (hls_metrics s3)
                           \<lparr>reconnects_total := reconnects_total (hls_metrics s3) + 1\<rparr>\<rparr>
             in (case open_stream env s4 of (ok, s5) \<Rightarrow> (Inr ok, s5))))"

text \<open>What a call of \<open>read_frame\<close> gives: a frame with its timestamp, None, or an exception.\<close>

datatype read_outcome = Frame nat real | NoFrame | Raises py_error

definition count_read_error :: "hls_source \<Rightarrow> hls_source" where
  "count_read_error s =
     s\<lparr>hls_metrics := (hls_metrics s)\<lparr>read_errors_total := read_errors_total (hls_metrics s) + 1\<rparr>\<rparr>"

text \<open>
  The \<open>except Exception\<close> handler of \<open>read_frame\<close>: it counts a read error and
  reconnects; what \<open>_handle_reconnect\<close> raises there leaves \<open>read_frame\<close>.
\<close>

definition read_handler :: "hls_env \<Rightarrow> hls_source \<Rightarrow> read_outcome \<times> hls_source" where
  "read_handler env s =
     (case handle_reconnect env (count_read_error s) of
        (Inl e, s1) \<Rightarrow> (Raises e, s1)
      | (Inr ok, s1) \<Rightarrow> (NoFrame, s1))"

text \<open>
  A \<open>_handle_reconnect\<close> inside the \<open>try\<close> block, followed by \<open>return None\<close>: what it
  raises is caught by the handler.
\<close>

definition reconnect_in_try :: "hls_env \<Rightarrow> hls_source \<Rightarrow> read_outcome \<times> hls_source" where
  "reconnect_in_try env s =
     (case handle_reconnect env s of
        (Inl e, s1) \<Rightarrow> read_handler env s1
      | (Inr ok, s1) \<Rightarrow> (NoFrame, s1))"

text \<open>The \<open>try\<close> block of \<open>read_frame\<close>.\<close>

definition read_try :: "hls_env \<Rightarrow> hls_source \<Rightarrow> read_outcome \<times> hls_source" where
  "read_try env s =
     (case capture s of
        None \<Rightarrow> reconnect_in_try env s
      | Some cap \<Rightarrow>
          let s1 = s\<lparr>opened_checks := opened_checks s + 1\<rparr> in
          if \<not> capture_is_opened env (opened_checks s) then reconnect_in_try env s1
          else
            let s2 = s1\<lparr>frame_reads := frame_reads s1 + 1\<rparr> in
            (case capture_reads env (frame_reads s1) of
               ReadRaises \<Rightarrow> read_handler env s2
             | ReadNothing \<Rightarrow> reconnect_in_try env (count_read_error s2)
             | ReadFrame frame \<Rightarrow>
                 (case time_time env s2 of
                    (timestamp, s3) \<Rightarrow>
                      let s4 = s3\<lparr>hls_metrics := (hls_metrics s3)
                                 \<lparr>frames_total := frames_total (hls_metrics s3) + 1,
                                  last_frame_timestamp := Some timestamp\<rparr>\<rparr>
                      in (Frame frame timestamp, reset_backoff s4))))"

text \<open>The part of \<open>read_frame\<close> from the URL refresh on.\<close>

definition read_refreshed :: "hls_env \<Rightarrow> hls_source \<Rightarrow> read_outcome \<times> hls_source" where
  "read_refreshed env s =
     (case refresh_url_if_needed env s of
        (True, s1) \<Rightarrow> read_try env s1
      | (False, s1) \<Rightarrow>
          (case handle_reconnect env s1 of
             (Inl e, s2) \<Rightarrow> (Raises e, s2)
           | (Inr False, s2) \<Rightarrow> (NoFrame, s2)
           | (Inr True, s2) \<Rightarrow> read_try env s2))"

definition read_frame :: "hls_env \<Rightarrow> hls_source \<Rightarrow> read_outcome \<times> hls_source" where
  "read_frame env s =
     (if connection_state s \<notin> set [CONNECTED, RECONNECTING] then
        (case open_stream env s of
           (True, s1) \<Rightarrow> read_refreshed env s1
         | (False, s1) \<Rightarrow>
             (case handle_reconnect env s1 of
                (Inl e, s2) \<Rightarrow> (Raises e, s2)
              | (Inr False, s2) \<Rightarrow> (NoFrame, s2)
              | (Inr True, s2) \<Rightarrow> read_refreshed env s2))
      else read_refreshed env s)"

text \<open>\<open>n\<close> calls of \<open>read_frame\<close> one after the other, whatever each one gives.\<close>

fun read_calls :: "hls_env \<Rightarrow> nat \<Rightarrow> hls_source \<Rightarrow> read_outcome list \<times> hls_source" where
  "read_calls env 0 s = ([], s)"
| "read_calls env (Suc n) s =
     (case read_frame env s of
        (r, s1) \<Rightarrow> (case read_calls env n s1 of (rs, s2) \<Rightarrow> (r # rs, s2)))"

text \<open>
  For stating what a failed call leaves behind: the part of the source that the backoff
  depends on, and what it is after one more sleep.
\<close>

definition backoff_state :: "hls_source \<Rightarrow> real \<times> real list \<times> int \<times> real \<times> real \<times> real" where
  "backoff_state s =
     (current_backoff s, slept s, max_consecutive_errors s, max_reconnect_delay s,
      backoff_multiplier s, reconnect_delay s)"

definition after_sleep :: "hls_env \<Rightarrow> hls_source \<Rightarrow> real \<times> real list \<times> int \<times> real \<times> real \<times> real" where
  "after_sleep env s =
     (min (current_backoff s * backoff_multiplier s) (max_reconnect_delay s),
      slept s @ [min (current_backoff s) (max_reconnect_delay s) * hls_jitter env (length (slept s))],
      max_consecutive_errors s, max_reconnect_delay s, backoff_multiplier s, reconnect_delay s)"

definition connected :: "hls_source \<Rightarrow> bool" where
  "connected s = (connection_state s \<in> set [CONNECTED, RECONNECTING])"

text \<open>
  A call that found no frame while the stream would not open: below the limit it gives
  None after one sleep, at the limit it raises without sleeping.
\<close>

definition failed_call :: "hls_env \<Rightarrow> hls_source \<Rightarrow> read_outcome \<times> hls_source \<Rightarrow> bool" where
  "failed_call env s p =
     (case p of
        (r, s') \<Rightarrow>
          if consecutive_errors s + 1 < max_consecutive_errors s
          then r = NoFrame \<and> connection_state s' = ERROR \<and> backoff_state s' = after_sleep env s
               \<and> consecutive_errors s' = consecutive_errors s + 1
          else r = Raises FrameSourceError \<and> backoff_state s' = backoff_state s
               \<and> consecutive_errors s' \<ge> consecutive_errors s + 1)"

section \<open>Temporal confirmation: the k-th call confirms\<close>

lemma count_similar_loop_filter:
  "count_similar_loop es l b t c =
     c + int (length (filter (\<lambda>e. fst e = l \<and> iou b (fst (snd e)) \<ge> t) es))"
  by (induction es l b t c rule: count_similar_loop.induct) (auto simp: Let_def)

lemma count_similar_split:
  assumes "\<forall>e\<in>set old. fst e \<noteq> l" "\<forall>e\<in>set new. fst e = l"
    "list_all (\<lambda>(_, buf_bbox, _, _). iou b buf_bbox \<ge> t) (old @ new)"
  shows "count_similar_loop (old @ new) l b t 0 = int (length new)"
proof -
  have a: "filter (\<lambda>e. fst e = l \<and> iou b (fst (snd e)) \<ge> t) old = []"
    using assms(1) by (auto simp: filter_empty_conv)
  have b: "filter (\<lambda>e. fst e = l \<and> iou b (fst (snd e)) \<ge> t) new = new"
    using assms(2,3) by (force simp: filter_id_conv list_all_iff)
  show ?thesis by (simp add: count_similar_loop_filter a b)
qed

lemma map_upt_all_False: "\<forall>i<n. \<not> f i \<Longrightarrow> map f [0..<n] = replicate n False"
  by (induction n) (auto simp: replicate_append_same)

lemma deque_append_keep:
  assumes "length new + 1 \<le> m"
  shows "deque_append m (old @ new) e = drop (length old + length new + 1 - m) old @ (new @ [e])"
  using assms by (simp add: deque_append_def Let_def)

lemma deque_append_length: "length xs \<le> m \<Longrightarrow> length (deque_append m xs x) \<le> m"
  by (simp add: deque_append_def Let_def)

lemma add_buffer: "buffer (add tb l b c f) = deque_append (maxlen tb) (buffer tb) (l, b, c, (case f of None \<Rightarrow> frame_counter tb | Some i \<Rightarrow> i))"
  by (simp add: add_def split: option.splits)

lemma add_maxlen: "maxlen (add tb l b c f) = maxlen tb"
  by (simp add: add_def split: option.splits)

lemma confirm_calls_gen:
  assumes "\<forall>c\<in>set cs. fst c = l"
    "buffer tb = old @ new" "\<forall>e\<in>set old. fst e \<noteq> l" "\<forall>e\<in>set new. fst e = l"
    "length new + length cs \<le> maxlen tb"
    "overlaps_held tb cs t"
  shows "fst (confirm_calls tb cs m t) = map (\<lambda>i. int i \<ge> m - 1) [length new ..< length new + length cs]"
  using assms
proof (induction cs arbitrary: tb old new)
  case Nil
  then show ?case by simp
next
  case (Cons c cs)
  obtain lb bb conf f where c: "c = (lb, bb, conf, f)" by (cases c) auto
  have lb: "lb = l" using Cons.prems(1) c by simp
  let ?tb' = "add tb l bb conf f"
  let ?e = "(l, bb, conf, (case f of None \<Rightarrow> frame_counter tb | Some i \<Rightarrow> i))"
  let ?old' = "drop (length old + length new + 1 - maxlen tb) old"
  have ov: "list_all (\<lambda>(_, buf_bbox, _, _). iou bb buf_bbox \<ge> t) (old @ new)"
    using Cons.prems(6) Cons.prems(2) c by simp
  have cnt: "count_similar tb l bb t = int (length new)"
    unfolding count_similar_def Cons.prems(2)
    by (rule count_similar_split[OF Cons.prems(3) Cons.prems(4) ov])
  have buf': "buffer ?tb' = ?old' @ (new @ [?e])"
    unfolding add_buffer Cons.prems(2)
    by (rule deque_append_keep) (use Cons.prems(5) in simp)
  have old': "\<forall>e\<in>set ?old'. fst e \<noteq> l"
    using Cons.prems(3) by (meson in_set_dropD)
  have new': "\<forall>e\<in>set (new @ [?e]). fst e = l"
    using Cons.prems(4) by auto
  have IH: "fst (confirm_calls ?tb' cs m t) =
      map (\<lambda>i. int i \<ge> m - 1) [length (new @ [?e]) ..< length (new @ [?e]) + length cs]"
    apply (rule Cons.IH[OF _ buf' old' new'])
    using Cons.prems(1) apply simp
    using Cons.prems(5) apply (simp add: add_maxlen)
    using Cons.prems(6) c lb apply simp
    done
  have "fst (confirm_calls tb (c # cs) m t) =
      (int (length new) \<ge> m - 1) # fst (confirm_calls ?tb' cs m t)"
    by (simp add: c lb temporal_confirm_def Let_def cnt split: prod.splits)
  also have "\<dots> = map (\<lambda>i. int i \<ge> m - 1) (length new # [Suc (length new) ..< length new + length (c # cs)])"
    by (simp add: IH)
  also have "length new # [Suc (length new) ..< length new + length (c # cs)] = [length new ..< length new + length (c # cs)]"
    by (rule upt_conv_Cons[symmetric]) simp
  finally show ?case .
qed

text \<open>
  C1 (amended). A buffer of window at least \<open>k\<close> that holds no entry with the label
  (a freshly constructed buffer in particular) receives \<open>k \<ge> 1\<close> calls with that label
  and \<open>min_confirmations = k\<close>, each bbox having IoU at least the threshold against
  every entry held when the call is made. Then calls \<open>1\<close> to \<open>k - 1\<close> return False and
  the \<open>k\<close>-th call returns True: the count is taken before the append and compared
  with \<open>min_confirmations - 1\<close>.
\<close>

theorem temporal_confirm_kth:
  assumes "1 \<le> k" "length cs = k" "k \<le> maxlen tb"
    "\<forall>c\<in>set cs. fst c = l" "\<forall>e\<in>set (buffer tb). fst e \<noteq> l" "overlaps_held tb cs t"
  shows "fst (confirm_calls tb cs (int k) t) = replicate (k - 1) False @ [True]"
proof -
  have "fst (confirm_calls tb cs (int k) t) = map (\<lambda>i. int i \<ge> int k - 1) [length ([]::entry list) ..< length ([]::entry list) + length cs]"
    by (rule confirm_calls_gen[where l = l and old = "buffer tb"]) (use assms in auto)
  also have "\<dots> = map (\<lambda>i. int i \<ge> int k - 1) ([0..<k - 1] @ [k - 1])"
    using assms(1,2) by (metis Suc_diff_1 add_0 list.size(3) less_eq_Suc_le upt_Suc_append zero_le One_nat_def)
  also have "\<dots> = replicate (k - 1) False @ [True]"
  proof -
    have "map (\<lambda>i. int i \<ge> int k - 1) [0..<k - 1] = replicate (k - 1) False"
      by (rule map_upt_all_False) auto
    then show ?thesis using assms(1) by simp
  qed
  finally show ?thesis .
qed


theorem temporal_confirm_kth_witness:
  "fst (confirm_calls (TemporalBuffer 5)
         [(''gun'', (100, 100, 200, 200), 0.9, Some 1),
          (''gun'', (102, 98, 202, 198), 0.88, Some 2),
          (''gun'', (101, 99, 201, 199), 0.91, Some 3)] (int 3) 0.5)
   = replicate (3 - 1) False @ [True]"
  by (rule temporal_confirm_kth[where l = "''gun''"])
     (simp_all add: TemporalBuffer_def add_def deque_append_def iou_def)

text \<open>
  C1 as stated quantifies over every buffer. A buffer that already holds one matching
  entry confirms one call early: with \<open>k = 2\<close> the first call already returns True.
\<close>

theorem temporal_confirm_prefilled_counterexample:
  "2 \<le> maxlen \<lparr>maxlen = 5, buffer = [(''gun'', (100, 100, 200, 200), 0.9, 0)], frame_counter = 1\<rparr>
   \<and> overlaps_held \<lparr>maxlen = 5, buffer = [(''gun'', (100, 100, 200, 200), 0.9, 0)], frame_counter = 1\<rparr>
        [(''gun'', (100, 100, 200, 200), 0.9, None), (''gun'', (100, 100, 200, 200), 0.9, None)] 0.5
   \<and> fst (confirm_calls \<lparr>maxlen = 5, buffer = [(''gun'', (100, 100, 200, 200), 0.9, 0)], frame_counter = 1\<rparr>
        [(''gun'', (100, 100, 200, 200), 0.9, None), (''gun'', (100, 100, 200, 200), 0.9, None)] 2 0.5)
     = [True, True]"
  by (simp add: add_def deque_append_def iou_def temporal_confirm_def count_similar_def)

section \<open>The legacy helper against temporal_confirm\<close>

lemma calculate_iou_eq: "calculate_iou a b = iou a b"
  by (simp add: calculate_iou_def iou_def)

text \<open>
  C2. With the weapon detector's defaults (window 5, temporal IoU 0.3, three confirmations)
  and the same gun box in four successive frames, \<open>temporal_confirm\<close> over a
  \<open>TemporalBuffer\<close> confirms from the third call on, while
  \<open>TemporalConfirmationHelper.add_and_check\<close> returns False on the third call and
  confirms only on the fourth: \<open>check_confirmation\<close> runs before the append and still
  compares the count with \<open>min_confirmations\<close>, not \<open>min_confirmations - 1\<close>.
\<close>

theorem legacy_helper_fires_late:
  "TemporalConfirmationHelper 5 0.3 3
     = Inr \<lparr>window_frames = 5, helper_iou_threshold = 0.3, helper_min_confirmations = 3,
            history = Map.empty\<rparr>
   \<and> fst (helper_calls
          \<lparr>window_frames = 5, helper_iou_threshold = 0.3, helper_min_confirmations = 3,
           history = Map.empty\<rparr> ''cam-1''
          [((''gun'', (100, 100, 200, 200), 0.9, 1), 10),
           ((''gun'', (100, 100, 200, 200), 0.9, 2), 11),
           ((''gun'', (100, 100, 200, 200), 0.9, 3), 12),
           ((''gun'', (100, 100, 200, 200), 0.9, 4), 13)])
     = [False, False, False, True]
   \<and> fst (confirm_calls (TemporalBuffer 5)
          [(''gun'', (100, 100, 200, 200), 0.9, Some 1),
           (''gun'', (100, 100, 200, 200), 0.9, Some 2),
           (''gun'', (100, 100, 200, 200), 0.9, Some 3),
           (''gun'', (100, 100, 200, 200), 0.9, Some 4)] 3 0.3)
     = [False, False, True, True]"
proof (intro conjI)
  show "TemporalConfirmationHelper 5 0.3 3
     = Inr \<lparr>window_frames = 5, helper_iou_threshold = 0.3, helper_min_confirmations = 3,
            history = Map.empty\<rparr>"
    by (simp add: TemporalConfirmationHelper_def)
  show "fst (helper_calls
          \<lparr>window_frames = 5, helper_iou_threshold = 0.3, helper_min_confirmations = 3,
           history = Map.empty\<rparr> ''cam-1''
          [((''gun'', (100, 100, 200, 200), 0.9, 1), 10),
           ((''gun'', (100, 100, 200, 200), 0.9, 2), 11),
           ((''gun'', (100, 100, 200, 200), 0.9, 3), 12),
           ((''gun'', (100, 100, 200, 200), 0.9, 4), 13)])
     = [False, False, False, True]"
    by code_simp
  show "fst (confirm_calls (TemporalBuffer 5)
          [(''gun'', (100, 100, 200, 200), 0.9, Some 1),
           (''gun'', (100, 100, 200, 200), 0.9, Some 2),
           (''gun'', (100, 100, 200, 200), 0.9, Some 3),
           (''gun'', (100, 100, 200, 200), 0.9, Some 4)] 3 0.3)
     = [False, False, True, True]"
    by code_simp
qed

section \<open>point_in_polygon on short polygons\<close>

lemma point_in_polygon_short:
  "length polygon < 3 \<Longrightarrow> point_in_polygon p polygon = Inr False"
  by (simp add: point_in_polygon_def)

text \<open>
  The unguarded copy still answers False on one vertex, and over the reals on two: both
  edges of a two-vertex polygon are the same segment, so the flag is toggled twice or
  not at all.
\<close>

lemma base_point_in_polygon_one:
  "base_point_in_polygon p [v] = Inr False"
  by (cases p; cases v) (simp add: base_point_in_polygon_def pip_body_def pip_step_def Let_def)

lemma base_point_in_polygon_two:
  "base_point_in_polygon p [v, w] = Inr False"
  apply (cases p; cases v; cases w)
  apply (simp add: base_point_in_polygon_def pip_body_def upt_rec)
  apply (simp add: pip_step_def Let_def)
  apply (auto simp: field_simps min_def max_def split: if_splits)
  done

text \<open>
  C9. On the empty polygon the copy in \<open>utils/roi.py\<close> returns False, and the copy in
  \<open>detectors/base.py\<close>, which has no guard, raises IndexError at \<open>polygon[0]\<close>.
\<close>

theorem base_point_in_polygon_empty:
  "base_point_in_polygon p [] = Inl IndexError \<and> point_in_polygon p [] = Inr False"
  by (cases p) (simp add: base_point_in_polygon_def point_in_polygon_def pip_body_def)

section \<open>Event ids\<close>

lemma str_nat_nonempty: "str_nat n \<noteq> []"
  by (subst str_nat.simps) simp

lemma digit_char_inj: "m < 10 \<Longrightarrow> n < 10 \<Longrightarrow> char_of (48 + m) = (char_of (48 + n) :: char) \<Longrightarrow> m = (n::nat)"
proof -
  assume a: "m < 10" "n < 10" "char_of (48 + m) = (char_of (48 + n) :: char)"
  then have "of_char (char_of (48 + m) :: char) = (of_char (char_of (48 + n) :: char) :: nat)" by simp
  then have "(48 + m) mod 256 = (48 + n) mod 256" by (simp only: of_char_of)
  with a(1,2) show ?thesis by simp
qed

lemma str_nat_inj: "str_nat m = str_nat n \<Longrightarrow> m = n"
proof (induction m arbitrary: n rule: str_nat.induct)
  case (1 m)
  show ?case
  proof (cases "m < 10")
    case True
    then have sm: "str_nat m = [char_of (48 + m)]" by (subst str_nat.simps) simp
    have n10: "n < 10"
    proof (rule ccontr)
      assume "\<not> n < 10"
      then have "str_nat n = str_nat (n div 10) @ [char_of (48 + n mod 10)]" by (subst str_nat.simps) simp
      with sm "1.prems" str_nat_nonempty[of "n div 10"] show False by simp
    qed
    then have "str_nat n = [char_of (48 + n)]" by (subst str_nat.simps) simp
    with sm "1.prems" True n10 show ?thesis by (auto dest: digit_char_inj)
  next
    case False
    then have sm: "str_nat m = str_nat (m div 10) @ [char_of (48 + m mod 10)]" by (subst str_nat.simps) simp
    have n10: "\<not> n < 10"
    proof
      assume "n < 10"
      then have "str_nat n = [char_of (48 + n)]" by (subst str_nat.simps) simp
      with sm "1.prems" str_nat_nonempty[of "m div 10"] show False by simp
    qed
    then have sn: "str_nat n = str_nat (n div 10) @ [char_of (48 + n mod 10)]" by (subst str_nat.simps) simp
    from sm sn "1.prems" have e1: "str_nat (m div 10) = str_nat (n div 10)"
      and e2: "char_of (48 + m mod 10) = (char_of (48 + n mod 10) :: char)" by auto
    have "m div 10 = n div 10" using "1.IH"[OF False e1] .
    moreover have "m mod 10 = n mod 10" using e2 by (auto dest!: digit_char_inj[rotated 2])
    ultimately show ?thesis by (metis div_mult_mod_eq)
  qed
qed

lemma str_nat_no_minus: "hd (str_nat n) \<noteq> CHR ''-''"
proof (induction n rule: str_nat.induct)
  case (1 n)
  show ?case
  proof (cases "n < 10")
    case True
    then have "str_nat n = [char_of (48 + n)]" by (subst str_nat.simps) simp
    moreover have "char_of (48 + n) \<noteq> CHR ''-''"
    proof
      assume "char_of (48 + n) = CHR ''-''"
      then have "of_char (char_of (48 + n) :: char) = (of_char CHR ''-'' :: nat)" by simp
      then have "(48 + n) mod 256 = 45" by (simp only: of_char_of of_char_Char) simp
      with True show False by simp
    qed
    ultimately show ?thesis by simp
  next
    case False
    then have "str_nat n = str_nat (n div 10) @ [char_of (48 + n mod 10)]" by (subst str_nat.simps) simp
    with "1.IH"[OF False] str_nat_nonempty[of "n div 10"] show ?thesis by simp
  qed
qed

lemma str_int_inj: "str_int i = str_int j \<Longrightarrow> i = j"
  using str_nat_no_minus[of "nat i"] str_nat_no_minus[of "nat j"]
    str_nat_no_minus[of "nat (- i)"] str_nat_no_minus[of "nat (- j)"]
  by (auto simp: str_int_def split: if_splits dest: str_nat_inj) (metis list.sel(1))+

text \<open>
  C7. The event id is the SHA-1 hex digest of
  \<open>camera_id:event_type:label:ts_ms // 1000\<close>. Equal camera, type and label with
  timestamps in the same one-second bucket give the same id, and a timestamp in another
  bucket gives a different hash input (the decimal rendering of the bucket is injective).
\<close>

theorem event_id_bucket:
  "generate_event_id c t l ts = sha1_hexdigest (c @ '':'' @ t @ '':'' @ l @ '':'' @ str_int (ts div 1000))
   \<and> (ts div 1000 = ts' div 1000 \<longrightarrow> generate_event_id c t l ts = generate_event_id c t l ts')
   \<and> (ts div 1000 \<noteq> ts' div 1000 \<longrightarrow> event_id_hash_input c t l ts \<noteq> event_id_hash_input c t l ts')"
  by (auto simp: generate_event_id_def event_id_hash_input_def dest: str_int_inj)

theorem event_id_bucket_witness:
  "(1234::int) div 1000 = 1876 div 1000
   \<and> generate_event_id ''cam-a'' ''weapon'' ''gun'' 1234 = generate_event_id ''cam-a'' ''weapon'' ''gun'' 1876
   \<and> (1234::int) div 1000 \<noteq> 2001 div 1000
   \<and> event_id_hash_input ''cam-a'' ''weapon'' ''gun'' 1234 \<noteq> event_id_hash_input ''cam-a'' ''weapon'' ''gun'' 2001"
  using event_id_bucket[of "''cam-a''" "''weapon''" "''gun''" 1234 1876]
    event_id_bucket[of "''cam-a''" "''weapon''" "''gun''" 1234 2001]
  by simp

section \<open>No float reaches the metadata store\<close>













section \<open>KDSClient: what a retry sends\<close>






















section \<open>KDSClient: the buffer after a flush\<close>

lemma backoff_sleep_buffer [simp]: "batch_buffer (backoff_sleep env a frs c) = batch_buffer c"
  by (simp add: backoff_sleep_def Let_def)

lemma count_failed_buffer [simp]: "batch_buffer (count_failed frs c) = batch_buffer c"
  by (simp add: count_failed_def)







lemma generate_event_id_any_typed:
  "generate_event_id_any str (PStr camera_id) (PStr event_type) (PStr label) (PInt ts_ms)
   = Inr (generate_event_id camera_id event_type label ts_ms)"
  by (simp add: generate_event_id_any_def generate_event_id_def event_id_hash_input_def
      floordiv_1000_def format_value_def Let_def)




end
